theory Spec2Isabelle
  imports Main
begin

section \<open>JavaScript values\<close>

text \<open>
  The property of \<^verbatim>\<open>src/js/DynamicProperty.js\<close> holds one JavaScript value and
  compares values with \<^verbatim>\<open>===\<close> and \<^verbatim>\<open>!==\<close>. Objects are known by their
  address; primitives by their content. \<open>JNum\<close> stands for the numbers other than
  NaN, read up to \<^verbatim>\<open>===\<close>; NaN is a value of its own because it is the one value that
  is not strictly equal to itself.
\<close>

type_synonym addr = nat

datatype jsval =
    JUndefined
  | JNull
  | JBool bool
  | JNaN
  | JNum int
  | JStr string
  | JRef addr

definition strict_eq :: "jsval \<Rightarrow> jsval \<Rightarrow> bool" where
  "strict_eq a b = (a = b \<and> a \<noteq> JNaN)"

text \<open>
  Modelled from the spec: \<^verbatim>\<open>Cesium.defined\<close> belongs to the Cesium library, not to
  the source file. Section 4.1: a value is defined when it is non-absent; the two
  absent values of JavaScript are \<^verbatim>\<open>undefined\<close> and \<^verbatim>\<open>null\<close>.
\<close>

definition defined :: "jsval \<Rightarrow> bool" where
  "defined v = (v \<noteq> JUndefined \<and> v \<noteq> JNull)"

section \<open>The methods of the stored values\<close>

text \<open>
  The source calls two methods of the value it is given, \<^verbatim>\<open>clone\<close> and
  \<^verbatim>\<open>equals\<close>, when \<^verbatim>\<open>typeof\<close> finds them. They are the caller's code, so the
  model takes them as parameters, over a heap \<open>'h\<close> of the caller's objects:
  \<^item> \<open>typeof_clone M h v\<close>: \<^verbatim>\<open>typeof v.clone === 'function'\<close> in heap \<open>h\<close>;
  \<^item> \<open>typeof_equals M h v\<close>: \<^verbatim>\<open>typeof v.equals === 'function'\<close>;
  \<^item> \<open>call_clone M h v r\<close>: what \<^verbatim>\<open>v.clone(r)\<close> returns, and the heap it leaves;
  \<^item> \<open>call_equals M h v w\<close>: the truth value of \<^verbatim>\<open>v.equals(w)\<close>, an observer
    of the heap.
  The methods return; they do not call back into the property.
\<close>

record 'h methods =
  typeof_clone :: "'h \<Rightarrow> jsval \<Rightarrow> bool"
  typeof_equals :: "'h \<Rightarrow> jsval \<Rightarrow> bool"
  call_clone :: "'h \<Rightarrow> jsval \<Rightarrow> jsval \<Rightarrow> jsval \<times> 'h"
  call_equals :: "'h \<Rightarrow> jsval \<Rightarrow> jsval \<Rightarrow> bool"

text \<open>
  The capabilities of a value, as section 6 of the spec words them: a value supports
  cloning (equality comparison) when it is defined and exposes the operation.
\<close>

definition supports_clone :: "'h methods \<Rightarrow> 'h \<Rightarrow> jsval \<Rightarrow> bool" where
  "supports_clone M h v = (defined v \<and> typeof_clone M h v)"

definition supports_equals :: "'h methods \<Rightarrow> 'h \<Rightarrow> jsval \<Rightarrow> bool" where
  "supports_equals M h v = (defined v \<and> typeof_equals M h v)"

text \<open>
  A method call \<^verbatim>\<open>recv.clone(arg)\<close> of JavaScript throws a TypeError when
  \<open>recv\<close> is undefined or null, or when \<^verbatim>\<open>recv.clone\<close> is not a function.
\<close>

datatype error = TypeError

definition invoke_clone :: "'h methods \<Rightarrow> 'h \<Rightarrow> jsval \<Rightarrow> jsval \<Rightarrow> error + (jsval \<times> 'h)" where
  "invoke_clone M h recv arg =
     (if defined recv \<and> typeof_clone M h recv then Inr (call_clone M h recv arg)
      else Inl TypeError)"

definition invoke_equals :: "'h methods \<Rightarrow> 'h \<Rightarrow> jsval \<Rightarrow> jsval \<Rightarrow> error + bool" where
  "invoke_equals M h recv arg =
     (if defined recv \<and> typeof_equals M h recv then Inr (call_equals M h recv arg)
      else Inl TypeError)"

section \<open>The property\<close>

text \<open>
  Modelled from the spec: \<^verbatim>\<open>Cesium.Event\<close> belongs to the Cesium library, not to the
  source file. Section 4.1: raising the event passes the arguments to the listeners
  synchronously. The model keeps the event as the list of the calls of
  \<^verbatim>\<open>raiseEvent\<close> made so far, oldest first, each with its argument list (the
  arguments are property instances, known by their address).
  The listeners are not part of the source; what a listener does when it is called is
  not modelled.
\<close>

type_synonym event = "addr list list"

definition raiseEvent :: "event \<Rightarrow> addr list \<Rightarrow> event" where
  "raiseEvent e args = e @ [args]"

text \<open>
  The fields of the source, in its order; \<open>self\<close> is the identity of the instance
  (what \<^verbatim>\<open>this === other\<close> compares).
\<close>

record property =
  self :: addr
  p_value :: jsval
  p_hasClone :: bool
  p_hasEquals :: bool
  p_definitionChanged :: event
  p_constant :: bool

text \<open>
  \<^verbatim>\<open>DynamicProperty.prototype.setValue\<close>, lines 78 to 94. The two method calls stand
  under the flags \<open>hasEquals\<close> and \<open>hasClone\<close> computed from the same value in the
  same heap, so neither can throw (lemmas \<open>invoke_equals_guarded\<close> and
  \<open>invoke_clone_guarded\<close>); \<^verbatim>\<open>value.clone()\<close> passes no argument, which is
  \<^verbatim>\<open>undefined\<close>.
\<close>

definition setValue :: "'h methods \<Rightarrow> 'h \<Rightarrow> property \<Rightarrow> jsval \<Rightarrow> property \<times> 'h" where
  "setValue M h p v =
     (let oldValue = p_value p in
      if \<not> strict_eq oldValue v then
        let isDefined = defined v;
            hasClone = (isDefined \<and> typeof_clone M h v);
            hasEquals = (isDefined \<and> typeof_equals M h v);
            p1 = p\<lparr>p_hasClone := hasClone, p_hasEquals := hasEquals\<rparr>;
            changed = (\<not> hasEquals \<or> \<not> call_equals M h v oldValue)
        in if changed then
             let (nv, h') = (if \<not> hasClone then (v, h) else call_clone M h v JUndefined)
             in (p1\<lparr>p_value := nv,
                    p_definitionChanged := raiseEvent (p_definitionChanged p1) [self p1]\<rparr>, h')
           else (p1, h)
      else (p, h))"

text \<open>
  The constructor, lines 14 to 21: \<open>a\<close> is the address of the new instance.
\<close>

definition DynamicProperty :: "'h methods \<Rightarrow> 'h \<Rightarrow> addr \<Rightarrow> jsval \<Rightarrow> property \<times> 'h" where
  "DynamicProperty M h a v =
     setValue M h
       \<lparr>self = a, p_value = JUndefined, p_hasClone = False, p_hasEquals = False,
        p_definitionChanged = [], p_constant = False\<rparr> v"

text \<open>
  The accessor \<^verbatim>\<open>isConstant\<close>, lines 32 to 42. Its documented type is Boolean.
\<close>

definition isConstant :: "property \<Rightarrow> bool" where
  "isConstant p = p_constant p"

definition set_isConstant :: "property \<Rightarrow> bool \<Rightarrow> property" where
  "set_isConstant p b =
     (if p_constant p \<noteq> b then
        (p\<lparr>p_constant := b\<rparr>)
          \<lparr>p_definitionChanged := raiseEvent (p_definitionChanged p) [self p]\<rparr>
      else p)"

text \<open>
  \<^verbatim>\<open>DynamicProperty.prototype.getValue\<close>, lines 66 to 68. The call
  \<^verbatim>\<open>this._value.clone(result)\<close> stands under the flag alone.
\<close>

definition getValue :: "'h methods \<Rightarrow> 'h \<Rightarrow> property \<Rightarrow> jsval \<Rightarrow> jsval \<Rightarrow> error + (jsval \<times> 'h)" where
  "getValue M h p time result =
     (if p_hasClone p then invoke_clone M h (p_value p) result else Inr (p_value p, h))"

text \<open>
  \<^verbatim>\<open>DynamicProperty.prototype.equals\<close>, lines 103 to 108. The argument is either an
  instance of the class or any other value (for which \<^verbatim>\<open>instanceof\<close> is false).
\<close>

datatype other = NotProperty jsval | Property property

definition equals :: "'h methods \<Rightarrow> 'h \<Rightarrow> property \<Rightarrow> other \<Rightarrow> error + bool" where
  "equals M h p other =
     (case other of
        NotProperty x \<Rightarrow> Inr False
      | Property q \<Rightarrow>
          if self p = self q then Inr True
          else if \<not> p_hasEquals p \<and> strict_eq (p_value p) (p_value q) then Inr True
          else if p_hasEquals p then invoke_equals M h (p_value p) (p_value q)
          else Inr False)"

section \<open>Values in the convention of the Cesium value types\<close>

text \<open>
  Modelled from the spec: the values a caller stores are not part of the source file.
  Section 6 gives their contract, \<^verbatim>\<open>clone(result?)\<close> and \<^verbatim>\<open>equals(other)\<close>. The
  objects below follow the convention of the Cesium value types: an object has
  components; \<^verbatim>\<open>equals\<close> compares the components of any two objects;
  \<^verbatim>\<open>clone\<close> writes the components into \<open>result\<close> when one is given and returns it,
  and allocates a copy otherwise. An object may have either method, both or none (a
  plain record of components has none). They instantiate the theorems at concrete inputs.
\<close>

record vobject =
  components :: "int list"
  with_clone :: bool
  with_equals :: bool

type_synonym vheap = "vobject list"

definition deref :: "vheap \<Rightarrow> jsval \<Rightarrow> vobject option" where
  "deref h v = (case v of JRef a \<Rightarrow> (if a < length h then Some (h ! a) else None) | _ \<Rightarrow> None)"

definition vec_equals :: "vheap \<Rightarrow> jsval \<Rightarrow> jsval \<Rightarrow> bool" where
  "vec_equals h v w =
     (case deref h v of
        None \<Rightarrow> False
      | Some x \<Rightarrow> (case deref h w of None \<Rightarrow> False | Some y \<Rightarrow> components x = components y))"

definition vec_clone :: "vheap \<Rightarrow> jsval \<Rightarrow> jsval \<Rightarrow> jsval \<times> vheap" where
  "vec_clone h v r =
     (case deref h v of
        None \<Rightarrow> (JUndefined, h)
      | Some x \<Rightarrow>
          if defined r then
            (r, case r of JRef b \<Rightarrow> h[b := (h ! b)\<lparr>components := components x\<rparr>] | _ \<Rightarrow> h)
          else (JRef (length h), h @ [x]))"

definition vec_methods :: "vheap methods" where
  "vec_methods =
     \<lparr>typeof_clone = (\<lambda>h v. case deref h v of None \<Rightarrow> False | Some x \<Rightarrow> with_clone x),
      typeof_equals = (\<lambda>h v. case deref h v of None \<Rightarrow> False | Some x \<Rightarrow> with_equals x),
      call_clone = vec_clone,
      call_equals = vec_equals\<rparr>"

text \<open>
  Four objects for the concrete inputs: a plain record of components without methods
  (address 0), a value with both methods (address 1), a value with \<^verbatim>\<open>equals\<close> only
  (address 2), all three with the same components, and a value with both methods and
  other components (address 3).
\<close>

definition plain3 :: vobject where
  "plain3 = \<lparr>components = [1, 2, 3], with_clone = False, with_equals = False\<rparr>"

definition vec3 :: vobject where
  "vec3 = \<lparr>components = [1, 2, 3], with_clone = True, with_equals = True\<rparr>"

definition eqonly3 :: vobject where
  "eqonly3 = \<lparr>components = [1, 2, 3], with_clone = False, with_equals = True\<rparr>"

definition vec9 :: vobject where
  "vec9 = \<lparr>components = [9], with_clone = True, with_equals = True\<rparr>"

definition example_heap :: vheap where
  "example_heap = [plain3, vec3, eqonly3, vec9]"





lemmas ev = DynamicProperty_def setValue_def getValue_def equals_def invoke_clone_def
  invoke_equals_def supports_clone_def supports_equals_def vec_methods_def vec_clone_def
  vec_equals_def deref_def strict_eq_def defined_def raiseEvent_def example_heap_def
  plain3_def vec3_def eqonly3_def vec9_def Let_def

section \<open>The guarded calls of setValue\<close>

lemma invoke_equals_guarded:
  "defined v \<and> typeof_equals M h v \<Longrightarrow> invoke_equals M h v w = Inr (call_equals M h v w)"
  by (simp add: invoke_equals_def)

lemma invoke_clone_guarded:
  "defined v \<and> typeof_clone M h v \<Longrightarrow> invoke_clone M h v r = Inr (call_clone M h v r)"
  by (simp add: invoke_clone_def)

section \<open>setValue with the stored reference\<close>

text \<open>
  C5. Calling \<open>setValue\<close> with a value that is strictly equal to the stored one
  changes nothing: the property (stored value, both capability flags, the constant flag,
  the record of raised events) and the heap are returned as they were.
\<close>

theorem setValue_same_reference:
  assumes "strict_eq (p_value p) v"
  shows "setValue M h p v = (p, h)"
  using assms by (simp add: setValue_def)

theorem setValue_same_reference_witness:
  "let (p, h) = DynamicProperty vec_methods example_heap 7 (JRef 0)
   in strict_eq (p_value p) (JRef 0) \<and> setValue vec_methods h p (JRef 0) = (p, h)"
proof -
  obtain p h where c: "DynamicProperty vec_methods example_heap 7 (JRef 0) = (p, h)"
    by (cases "DynamicProperty vec_methods example_heap 7 (JRef 0)")
  have s: "strict_eq (p_value p) (JRef 0)"
    using c by (auto simp add: ev)
  show ?thesis
    using c s setValue_same_reference [OF s, of vec_methods h] by simp
qed

section \<open>setValue with another reference\<close>

text \<open>
  C1. For a value \<open>v\<close> that is not strictly equal to the stored one, \<open>changed\<close> is
  true exactly when \<open>v\<close> lacks the equals capability or \<open>v.equals(old)\<close> is false.
  When it is true the stored value becomes the clone of \<open>v\<close> if \<open>v\<close> supports
  cloning and \<open>v\<close> itself otherwise, and the event gets exactly one more call of
  \<open>raiseEvent\<close>, whose only argument is this property; when it is false the event
  gets none and the stored value stays.
\<close>

theorem setValue_changed:
  assumes "\<not> strict_eq (p_value p) v"
  shows "let changed = (\<not> supports_equals M h v \<or> \<not> call_equals M h v (p_value p));
             p' = fst (setValue M h p v)
         in p_definitionChanged p' =
              (if changed then p_definitionChanged p @ [[self p]] else p_definitionChanged p) \<and>
            p_value p' =
              (if changed then
                 (if supports_clone M h v then fst (call_clone M h v JUndefined) else v)
               else p_value p)"
  using assms
  by (simp add: setValue_def supports_equals_def supports_clone_def raiseEvent_def Let_def
      split: prod.splits)

theorem setValue_changed_witness:
  "let (p, h) = DynamicProperty vec_methods example_heap 7 (JRef 0);
       p' = fst (setValue vec_methods h p (JRef 3))
   in \<not> strict_eq (p_value p) (JRef 3) \<and>
      p_definitionChanged p' = [[7], [7]] \<and> p_value p' = JRef 4"
proof -
  obtain p h where c: "DynamicProperty vec_methods example_heap 7 (JRef 0) = (p, h)"
    by (cases "DynamicProperty vec_methods example_heap 7 (JRef 0)")
  have s: "\<not> strict_eq (p_value p) (JRef 3)"
    using c by (auto simp add: ev)
  show ?thesis
    using c s setValue_changed [OF s, of vec_methods h] by (auto simp add: ev)
qed

text \<open>
  C6. For a value \<open>v\<close> that is not strictly equal to the stored one, supports
  equality comparison and has \<open>v.equals(old)\<close> true: both capability flags are set
  from the capabilities of \<open>v\<close>, and nothing else changes: the stored value is the
  one stored before, the event gets no call, the heap is as it was.
\<close>

theorem setValue_equal_value:
  assumes "\<not> strict_eq (p_value p) v"
    and "supports_equals M h v"
    and "call_equals M h v (p_value p)"
  shows "setValue M h p v =
           (p\<lparr>p_hasClone := supports_clone M h v, p_hasEquals := supports_equals M h v\<rparr>, h)"
  using assms
  by (simp add: setValue_def supports_equals_def supports_clone_def Let_def)

theorem setValue_equal_value_witness:
  "let (p, h) = DynamicProperty vec_methods example_heap 7 (JRef 2)
   in \<not> strict_eq (p_value p) (JRef 1) \<and> supports_equals vec_methods h (JRef 1) \<and>
      call_equals vec_methods h (JRef 1) (p_value p) \<and>
      setValue vec_methods h p (JRef 1) = (p\<lparr>p_hasClone := True, p_hasEquals := True\<rparr>, h)"
proof -
  obtain p h where c: "DynamicProperty vec_methods example_heap 7 (JRef 2) = (p, h)"
    by (cases "DynamicProperty vec_methods example_heap 7 (JRef 2)")
  have s: "\<not> strict_eq (p_value p) (JRef 1)"
    and e: "supports_equals vec_methods h (JRef 1)"
    and q: "call_equals vec_methods h (JRef 1) (p_value p)"
    using c by (auto simp add: ev)
  show ?thesis
    using c s e q setValue_equal_value [OF s e q] by (auto simp add: ev)
qed

section \<open>The constant flag\<close>

text \<open>
  C8. After the setter is called with \<open>b\<close> the getter returns \<open>b\<close>. When \<open>b\<close> is
  the current flag the setter returns the property as it was (no flag change, no
  event); otherwise it sets the flag and the event gets exactly one more call, whose
  only argument is this property. A property just constructed has the flag false.
\<close>

theorem isConstant_set:
  "isConstant (set_isConstant p b) = b \<and>
   (b = isConstant p \<longrightarrow> set_isConstant p b = p) \<and>
   (b \<noteq> isConstant p \<longrightarrow>
      set_isConstant p b =
        p\<lparr>p_constant := b, p_definitionChanged := p_definitionChanged p @ [[self p]]\<rparr>) \<and>
   isConstant (fst (DynamicProperty M h a v)) = False"
proof -
  have c: "p_constant (fst (setValue M h q v)) = p_constant q" for q
    by (simp add: setValue_def Let_def split: prod.splits)
  have "isConstant (fst (DynamicProperty M h a v)) = False"
    by (simp add: isConstant_def DynamicProperty_def c)
  then show ?thesis
    by (auto simp add: isConstant_def set_isConstant_def raiseEvent_def)
qed

theorem isConstant_set_witness:
  "let p = fst (DynamicProperty vec_methods example_heap 7 (JRef 0))
   in isConstant p = False \<and> set_isConstant p False = p \<and>
      isConstant (set_isConstant p True) = True \<and>
      p_definitionChanged (set_isConstant p True) = [[7], [7]] \<and>
      set_isConstant (set_isConstant p True) True = set_isConstant p True"
  using isConstant_set [of "fst (DynamicProperty vec_methods example_heap 7 (JRef 0))" True
      vec_methods example_heap 7 "JRef 0"]
    isConstant_set [of "fst (DynamicProperty vec_methods example_heap 7 (JRef 0))" False
      vec_methods example_heap 7 "JRef 0"]
  by (simp add: ev isConstant_def set_isConstant_def)

section \<open>A property constructed with an absent value\<close>

text \<open>
  C9. A property constructed with an absent value (\<^verbatim>\<open>undefined\<close>, or
  \<^verbatim>\<open>null\<close>) returns that value from \<open>getValue\<close>, whatever the time and result
  arguments, and \<open>equals\<close> returns true against every property that holds the same
  absent value.
\<close>

theorem absent_initial_value:
  assumes "\<not> defined v"
    and "DynamicProperty M h a v = (p, h')"
  shows "getValue M g p t r = Inr (v, g) \<and>
         (p_value q = v \<longrightarrow> equals M g p (Property q) = Inr True)"
proof -
  have v: "v = JUndefined \<or> v = JNull"
    using assms(1) by (simp add: defined_def)
  have p: "p_value p = v \<and> \<not> p_hasClone p \<and> \<not> p_hasEquals p"
    using v assms(2)
    by (auto simp add: DynamicProperty_def setValue_def strict_eq_def defined_def Let_def)
  have "strict_eq v v"
    using v by (auto simp add: strict_eq_def)
  with p show ?thesis
    by (simp add: getValue_def equals_def)
qed

theorem absent_initial_value_witness:
  "let (p, h) = DynamicProperty vec_methods example_heap 7 JUndefined;
       (q, g) = DynamicProperty vec_methods h 8 JUndefined
   in \<not> defined JUndefined \<and> p_value q = JUndefined \<and>
      getValue vec_methods g p (JNum 5) (JRef 1) = Inr (JUndefined, g) \<and>
      equals vec_methods g p (Property q) = Inr True"
proof -
  obtain p h where c: "DynamicProperty vec_methods example_heap 7 JUndefined = (p, h)"
    by (cases "DynamicProperty vec_methods example_heap 7 JUndefined")
  obtain q g where d: "DynamicProperty vec_methods h 8 JUndefined = (q, g)"
    by (cases "DynamicProperty vec_methods h 8 JUndefined")
  have u: "\<not> defined JUndefined"
    by (simp add: defined_def)
  have q: "p_value q = JUndefined"
    using d by (auto simp add: ev)
  show ?thesis
    using c d u q absent_initial_value [OF u c, of g "JNum 5" "JRef 1" q] by simp
qed

section \<open>Two calls of setValue with equal values\<close>




section \<open>The flags after a value that setValue does not store\<close>

text \<open>
  \<open>setValue\<close> writes both flags before it decides \<open>changed\<close> (lines 85 and 86
  stand before line 88). When the new value is equal to the stored one, the flags
  describe the new value and the stored value is the old one. The four theorems of this
  section follow the property through such a call; \<open>getValue\<close> and \<open>equals\<close> read
  the flags as if they described the stored value.
\<close>

text \<open>
  C4. After a call \<open>setValue(v)\<close> with \<open>v\<close> another reference than the stored
  value, \<open>v.equals\<close> true of the stored value, and \<open>v\<close> differing from the stored
  value in the clone capability: the stored value is the one stored before, and the
  flag \<open>hasClone\<close> is not the clone capability of the stored value.
\<close>

theorem setValue_flags_of_rejected_value:
  assumes "\<not> strict_eq (p_value p) v"
    and "supports_equals M h v"
    and "call_equals M h v (p_value p)"
    and "supports_clone M h v \<noteq> supports_clone M h (p_value p)"
    and "setValue M h p v = (p', h')"
  shows "p_value p' = p_value p \<and> p_hasClone p' \<noteq> supports_clone M h' (p_value p')"
  using assms
  by (auto simp add: setValue_def supports_equals_def supports_clone_def Let_def)

theorem setValue_flags_of_rejected_value_witness:
  "let (p, h) = DynamicProperty vec_methods example_heap 7 (JRef 2);
       (p', h') = setValue vec_methods h p (JRef 1)
   in \<not> strict_eq (p_value p) (JRef 1) \<and> supports_equals vec_methods h (JRef 1) \<and>
      call_equals vec_methods h (JRef 1) (p_value p) \<and>
      supports_clone vec_methods h (JRef 1) \<noteq> supports_clone vec_methods h (p_value p) \<and>
      p_value p' = JRef 2 \<and> p_hasClone p' = True \<and>
      supports_clone vec_methods h' (p_value p') = False"
proof -
  obtain p h where c: "DynamicProperty vec_methods example_heap 7 (JRef 2) = (p, h)"
    by (cases "DynamicProperty vec_methods example_heap 7 (JRef 2)")
  obtain p' h' where d: "setValue vec_methods h p (JRef 1) = (p', h')"
    by (cases "setValue vec_methods h p (JRef 1)")
  have p: "p_value p = JRef 2 \<and> h = example_heap"
    using c by (auto simp add: ev)
  have a1: "\<not> strict_eq (p_value p) (JRef 1)"
    and a2: "supports_equals vec_methods h (JRef 1)"
    and a3: "call_equals vec_methods h (JRef 1) (p_value p)"
    and a4: "supports_clone vec_methods h (JRef 1) \<noteq> supports_clone vec_methods h (p_value p)"
    using p by (auto simp add: ev)
  have n: "supports_clone vec_methods h' (JRef 2) = False"
    using d p by (auto simp add: ev)
  show ?thesis
    using c d p a1 a2 a3 a4 n setValue_flags_of_rejected_value [OF a1 a2 a3 a4 d]
    by simp
qed

text \<open>
  C10. After a call \<open>setValue(v)\<close> with \<open>v\<close> another reference than the stored
  value, \<open>v.equals\<close> true of the stored value, \<open>v\<close> supporting cloning and the
  stored value not: the flag \<open>hasClone\<close> is true, the stored value exposes no clone
  function, and the unguarded call in \<open>getValue\<close> throws a TypeError.
\<close>

theorem getValue_throws_after_rejected_value:
  assumes "\<not> strict_eq (p_value p) v"
    and "supports_equals M h v"
    and "call_equals M h v (p_value p)"
    and "supports_clone M h v"
    and "\<not> supports_clone M h (p_value p)"
    and "setValue M h p v = (p', h')"
  shows "p_hasClone p' \<and> \<not> supports_clone M h' (p_value p') \<and>
         getValue M h' p' t r = Inl TypeError"
  using assms
  by (auto simp add: setValue_def getValue_def invoke_clone_def supports_equals_def
      supports_clone_def Let_def)

theorem getValue_throws_after_rejected_value_witness:
  "let (p, h) = DynamicProperty vec_methods example_heap 7 (JRef 0);
       (p', h') = setValue vec_methods h p (JRef 1)
   in \<not> strict_eq (p_value p) (JRef 1) \<and> supports_equals vec_methods h (JRef 1) \<and>
      call_equals vec_methods h (JRef 1) (p_value p) \<and>
      supports_clone vec_methods h (JRef 1) \<and> \<not> supports_clone vec_methods h (p_value p) \<and>
      p_hasClone p' \<and> p_value p' = JRef 0 \<and>
      getValue vec_methods h' p' JUndefined JUndefined = Inl TypeError"
proof -
  obtain p h where c: "DynamicProperty vec_methods example_heap 7 (JRef 0) = (p, h)"
    by (cases "DynamicProperty vec_methods example_heap 7 (JRef 0)")
  obtain p' h' where d: "setValue vec_methods h p (JRef 1) = (p', h')"
    by (cases "setValue vec_methods h p (JRef 1)")
  have p: "p_value p = JRef 0 \<and> h = example_heap"
    using c by (auto simp add: ev)
  have a1: "\<not> strict_eq (p_value p) (JRef 1)"
    and a2: "supports_equals vec_methods h (JRef 1)"
    and a3: "call_equals vec_methods h (JRef 1) (p_value p)"
    and a4: "supports_clone vec_methods h (JRef 1)"
    and a5: "\<not> supports_clone vec_methods h (p_value p)"
    using p by (auto simp add: ev)
  have v: "p_value p' = JRef 0"
    using d p by (auto simp add: ev)
  show ?thesis
    using c d a1 a2 a3 a4 a5 v
      getValue_throws_after_rejected_value [OF a1 a2 a3 a4 a5 d, of JUndefined JUndefined]
    by simp
qed

text \<open>
  C2. After a call \<open>setValue(v)\<close> with \<open>v\<close> another reference than the stored
  value, \<open>v.equals\<close> true of the stored value, \<open>v\<close> not supporting cloning and
  the stored value supporting it: the stored value supports cloning, and \<open>getValue\<close>
  returns the stored reference itself, not a clone, whatever the time and result
  arguments.
\<close>

theorem getValue_returns_stored_cloneable_value:
  assumes "\<not> strict_eq (p_value p) v"
    and "supports_equals M h v"
    and "call_equals M h v (p_value p)"
    and "\<not> supports_clone M h v"
    and "supports_clone M h (p_value p)"
    and "setValue M h p v = (p', h')"
  shows "supports_clone M h' (p_value p') \<and> getValue M h' p' t r = Inr (p_value p', h')"
  using assms
  by (auto simp add: setValue_def getValue_def supports_equals_def supports_clone_def Let_def)

theorem getValue_returns_stored_cloneable_value_witness:
  "let (p, h) = DynamicProperty vec_methods example_heap 7 (JRef 1);
       (p', h') = setValue vec_methods h p (JRef 2)
   in \<not> strict_eq (p_value p) (JRef 2) \<and> supports_equals vec_methods h (JRef 2) \<and>
      call_equals vec_methods h (JRef 2) (p_value p) \<and>
      \<not> supports_clone vec_methods h (JRef 2) \<and> supports_clone vec_methods h (p_value p) \<and>
      p_value p' = JRef 4 \<and> supports_clone vec_methods h' (JRef 4) \<and>
      getValue vec_methods h' p' JUndefined JUndefined = Inr (JRef 4, h')"
proof -
  obtain p h where c: "DynamicProperty vec_methods example_heap 7 (JRef 1) = (p, h)"
    by (cases "DynamicProperty vec_methods example_heap 7 (JRef 1)")
  obtain p' h' where d: "setValue vec_methods h p (JRef 2) = (p', h')"
    by (cases "setValue vec_methods h p (JRef 2)")
  have p: "p_value p = JRef 4 \<and> h = example_heap @ [vec3]"
    using c by (auto simp add: ev)
  have a1: "\<not> strict_eq (p_value p) (JRef 2)"
    and a2: "supports_equals vec_methods h (JRef 2)"
    and a3: "call_equals vec_methods h (JRef 2) (p_value p)"
    and a4: "\<not> supports_clone vec_methods h (JRef 2)"
    and a5: "supports_clone vec_methods h (p_value p)"
    using p by (auto simp add: ev)
  have v: "p_value p' = JRef 4"
    using d p by (auto simp add: ev)
  show ?thesis
    using c d a1 a2 a3 a4 a5 v
      getValue_returns_stored_cloneable_value [OF a1 a2 a3 a4 a5 d, of JUndefined JUndefined]
    by simp
qed

text \<open>
  C3. After a call \<open>setValue(v)\<close> with \<open>v\<close> another reference than the stored
  value, \<open>v.equals\<close> true of the stored value, and the stored value not supporting
  equality comparison: against another property that holds the same reference,
  \<open>equals\<close> throws a TypeError, where comparing the references would give true.
\<close>

theorem equals_throws_after_rejected_value:
  assumes "\<not> strict_eq (p_value p) v"
    and "supports_equals M h v"
    and "call_equals M h v (p_value p)"
    and "\<not> supports_equals M h (p_value p)"
    and "setValue M h p v = (p', h')"
    and "self q \<noteq> self p"
    and "strict_eq (p_value p') (p_value q)"
  shows "\<not> supports_equals M h' (p_value p') \<and> equals M h' p' (Property q) = Inl TypeError"
  using assms
  by (auto simp add: setValue_def equals_def invoke_equals_def supports_equals_def Let_def)

theorem equals_throws_after_rejected_value_witness:
  "let (p, h) = DynamicProperty vec_methods example_heap 7 (JRef 0);
       (p', h') = setValue vec_methods h p (JRef 2);
       (q, g) = DynamicProperty vec_methods h' 8 (JRef 0)
   in \<not> strict_eq (p_value p) (JRef 2) \<and> supports_equals vec_methods h (JRef 2) \<and>
      call_equals vec_methods h (JRef 2) (p_value p) \<and>
      \<not> supports_equals vec_methods h (p_value p) \<and> self q \<noteq> self p \<and>
      strict_eq (p_value p') (p_value q) \<and> \<not> supports_equals vec_methods h' (p_value p') \<and>
      equals vec_methods h' p' (Property q) = Inl TypeError"
proof -
  obtain p h where c: "DynamicProperty vec_methods example_heap 7 (JRef 0) = (p, h)"
    by (cases "DynamicProperty vec_methods example_heap 7 (JRef 0)")
  obtain p' h' where d: "setValue vec_methods h p (JRef 2) = (p', h')"
    by (cases "setValue vec_methods h p (JRef 2)")
  obtain q g where e: "DynamicProperty vec_methods h' 8 (JRef 0) = (q, g)"
    by (cases "DynamicProperty vec_methods h' 8 (JRef 0)")
  have p: "p_value p = JRef 0 \<and> self p = 7 \<and> h = example_heap"
    using c by (auto simp add: ev)
  have a1: "\<not> strict_eq (p_value p) (JRef 2)"
    and a2: "supports_equals vec_methods h (JRef 2)"
    and a3: "call_equals vec_methods h (JRef 2) (p_value p)"
    and a4: "\<not> supports_equals vec_methods h (p_value p)"
    using p by (auto simp add: ev)
  have p': "p_value p' = JRef 0 \<and> h' = example_heap"
    using d p by (auto simp add: ev)
  have q: "p_value q = JRef 0 \<and> self q = 8"
    using e p' by (auto simp add: ev)
  have a6: "self q \<noteq> self p"
    and a7: "strict_eq (p_value p') (p_value q)"
    using p p' q by (auto simp add: strict_eq_def)
  show ?thesis
    using c d e a1 a2 a3 a4 a6 a7 equals_throws_after_rejected_value [OF a1 a2 a3 a4 d a6 a7]
    by simp
qed

section \<open>Where the flags agree with the stored value\<close>

text \<open>
  In a state whose flags are the capabilities of the stored value, \<open>getValue\<close>
  returns what the value's \<open>clone(result)\<close> returns when the value supports cloning
  and the stored reference otherwise, and \<open>equals\<close> compares with the value's
  \<open>equals\<close> when the value of this side supports it and by reference otherwise; the
  time argument is never read.
\<close>

lemma getValue_ignores_time: "getValue M h p t1 r = getValue M h p t2 r"
  by (simp add: getValue_def)

lemma getValue_flag_agrees:
  assumes "p_hasClone p = supports_clone M h (p_value p)"
  shows "getValue M h p t r =
           (if supports_clone M h (p_value p) then Inr (call_clone M h (p_value p) r)
            else Inr (p_value p, h))"
  using assms by (simp add: getValue_def invoke_clone_def supports_clone_def)

lemma equals_flag_agrees:
  assumes "p_hasEquals p = supports_equals M h (p_value p)"
  shows "equals M h p (Property q) =
           Inr (self p = self q \<or>
                (if supports_equals M h (p_value p) then call_equals M h (p_value p) (p_value q)
                 else strict_eq (p_value p) (p_value q)))"
  using assms by (simp add: equals_def invoke_equals_def supports_equals_def)

lemma equals_not_a_property: "equals M h p (NotProperty x) = Inr False"
  by (simp add: equals_def)

end
